theory Spec2Isabelle
  imports
    Main
    "HOL-Library.Char_ord"
    "HOL-Library.List_Lexorder"
    "HOL-Library.AList"
begin

section \<open>JavaScript values\<close>

text \<open>
  The documents that \<^verbatim>\<open>digitalSignature.js\<close> signs are plain JavaScript values. An object
  is an association list in property order, read with \<open>map_of\<close> (JavaScript objects have
  one value per key); a property that holds \<^verbatim>\<open>undefined\<close> is \<open>JUndefined\<close>. Strings are lists
  of code units below 256, and numbers are the integers of absolute value up to
  \<open>2 ^ 53\<close>, which \<^verbatim>\<open>Number.prototype.toString\<close> prints with their exact decimal digits.
\<close>

datatype json =
    JUndefined
  | JNull
  | JBool bool
  | JNumber int
  | JString string
  | JArray "json list"
  | JObject "(string \<times> json) list"

text \<open>A thrown JavaScript exception, with its \<^verbatim>\<open>message\<close>.\<close>

datatype js_error = TypeError string | Error string

fun message_of :: "js_error \<Rightarrow> string" where
  "message_of (TypeError m) = m"
| "message_of (Error m) = m"

definition digit_char :: "nat \<Rightarrow> char" where
  "digit_char n = ''0123456789abcdef'' ! (n mod 16)"

fun nat_to_string :: "nat \<Rightarrow> string" where
  "nat_to_string n =
     (if n < 10 then [digit_char n] else nat_to_string (n div 10) @ [digit_char (n mod 10)])"

definition number_to_string :: "int \<Rightarrow> string" where
  "number_to_string n =
     (if n < 0 then ''-'' @ nat_to_string (nat (- n)) else nat_to_string (nat n))"

fun join :: "string \<Rightarrow> string list \<Rightarrow> string" where
  "join sep [] = []"
| "join sep [x] = x"
| "join sep (x # y # ys) = x @ sep @ join sep (y # ys)"

section \<open>JSON.stringify\<close>

text \<open>
  \<^verbatim>\<open>JSON.stringify(value, replacer)\<close> as ECMA-262 defines it when \<^verbatim>\<open>replacer\<close> is absent
  (\<open>None\<close>) or an array of strings, and no indentation is asked for. An array becomes the
  PropertyList (each name once, in order of first appearance), and every object met during
  serialization, at any depth, is written by walking that list; without a replacer an
  object is written by walking its own keys.
\<close>

definition quote_unit :: "char \<Rightarrow> string" where
  "quote_unit c =
     (if c = CHR 0x08 then [CHR 0x5C, CHR ''b'']
      else if c = CHR 0x09 then [CHR 0x5C, CHR ''t'']
      else if c = CHR 0x0A then [CHR 0x5C, CHR ''n'']
      else if c = CHR 0x0C then [CHR 0x5C, CHR ''f'']
      else if c = CHR 0x0D then [CHR 0x5C, CHR ''r'']
      else if c = CHR 0x22 then [CHR 0x5C, CHR 0x22]
      else if c = CHR 0x5C then [CHR 0x5C, CHR 0x5C]
      else if (of_char c :: nat) < 32
        then [CHR 0x5C, CHR ''u'', CHR ''0'', CHR ''0'',
              digit_char (of_char c div 16), digit_char (of_char c mod 16)]
      else [c])"

definition QuoteJSONString :: "string \<Rightarrow> string" where
  "QuoteJSONString s = [CHR 0x22] @ concat (map quote_unit s) @ [CHR 0x22]"

primrec property_list :: "string list \<Rightarrow> string list \<Rightarrow> string list" where
  "property_list acc [] = acc"
| "property_list acc (k # ks) = property_list (if k \<in> set acc then acc else acc @ [k]) ks"

text \<open>
  One member of an object, for the name \<open>P\<close> of the PropertyList: \<open>props\<close> holds the own
  properties, already serialized. The value is read with Get, which also finds what a
  plain object inherits from \<^verbatim>\<open>Object.prototype\<close>: its functions serialize to nothing, and
  \<^verbatim>\<open>__proto__\<close> gives \<^verbatim>\<open>Object.prototype\<close> itself, whose only member under a PropertyList
  that names \<^verbatim>\<open>__proto__\<close> is its own \<^verbatim>\<open>__proto__\<close>, \<^verbatim>\<open>null\<close>.
\<close>

definition object_member :: "(string \<times> string option) list \<Rightarrow> string \<Rightarrow> string option" where
  "object_member props P =
     (case map_of props P of
        Some (Some strP) \<Rightarrow> Some (QuoteJSONString P @ '':'' @ strP)
      | Some None \<Rightarrow> None
      | None \<Rightarrow>
          if P = ''__proto__''
          then Some (QuoteJSONString P @ '':'' @ ''{'' @ QuoteJSONString P @ '':null}'')
          else None)"

definition array_element :: "string option \<Rightarrow> string" where
  "array_element strP = (case strP of None \<Rightarrow> ''null'' | Some s \<Rightarrow> s)"

primrec SerializeJSONProperty :: "string list option \<Rightarrow> json \<Rightarrow> string option" where
  "SerializeJSONProperty K JUndefined = None"
| "SerializeJSONProperty K JNull = Some ''null''"
| "SerializeJSONProperty K (JBool b) = Some (if b then ''true'' else ''false'')"
| "SerializeJSONProperty K (JNumber n) = Some (number_to_string n)"
| "SerializeJSONProperty K (JString s) = Some (QuoteJSONString s)"
| "SerializeJSONProperty K (JArray xs) =
     Some (''['' @ join '','' (map array_element (map (SerializeJSONProperty K) xs)) @ '']'')"
| "SerializeJSONProperty K (JObject kvs) =
     Some (''{'' @ join '',''
       (List.map_filter (object_member (map (map_prod id (SerializeJSONProperty K)) kvs))
          (case K of None \<Rightarrow> map fst kvs | Some ks \<Rightarrow> ks))
       @ ''}'')"

definition JSON_stringify :: "json \<Rightarrow> string list option \<Rightarrow> string option" where
  "JSON_stringify v replacer =
     SerializeJSONProperty (map_option (property_list []) replacer) v"

text \<open>
  \<^verbatim>\<open>Object.keys\<close>: the own enumerable property names. It throws on \<^verbatim>\<open>null\<close> and
  \<^verbatim>\<open>undefined\<close>; a string or an array has its indices as names. (JavaScript lists
  index-like names of an object first; every caller below sorts the result at once.)
\<close>

fun Object_keys :: "json \<Rightarrow> js_error + string list" where
  "Object_keys JUndefined = Inl (TypeError ''Cannot convert undefined or null to object'')"
| "Object_keys JNull = Inl (TypeError ''Cannot convert undefined or null to object'')"
| "Object_keys (JObject kvs) = Inr (map fst kvs)"
| "Object_keys (JArray xs) = Inr (map nat_to_string [0..<length xs])"
| "Object_keys (JString s) = Inr (map nat_to_string [0..<length s])"
| "Object_keys (JBool b) = Inr []"
| "Object_keys (JNumber n) = Inr []"

text \<open>
  Property read \<^verbatim>\<open>v.name\<close>, for the names the sources read (none of them is
  \<^verbatim>\<open>length\<close> or an index): it throws on \<^verbatim>\<open>null\<close> and \<^verbatim>\<open>undefined\<close> and gives
  \<^verbatim>\<open>undefined\<close> for a name the value does not have.
\<close>

fun get_property :: "json \<Rightarrow> string \<Rightarrow> js_error + json" where
  "get_property JUndefined name =
     Inl (TypeError (''Cannot read properties of undefined (reading '' @ [CHR 0x27] @ name
                       @ [CHR 0x27] @ '')''))"
| "get_property JNull name =
     Inl (TypeError (''Cannot read properties of null (reading '' @ [CHR 0x27] @ name
                       @ [CHR 0x27] @ '')''))"
| "get_property (JObject kvs) name =
     Inr (case map_of kvs name of Some v \<Rightarrow> v | None \<Rightarrow> JUndefined)"
| "get_property v name = Inr JUndefined"

text \<open>String concatenation \<^verbatim>\<open>s + v\<close> converts \<^verbatim>\<open>v\<close> with ToString.\<close>

primrec ToString :: "json \<Rightarrow> string" where
  "ToString JUndefined = ''undefined''"
| "ToString JNull = ''null''"
| "ToString (JBool b) = (if b then ''true'' else ''false'')"
| "ToString (JNumber n) = number_to_string n"
| "ToString (JString s) = s"
| "ToString (JArray xs) =
     join '','' (map (\<lambda>(x, s). if x = JUndefined \<or> x = JNull then [] else s)
                   (zip xs (map ToString xs)))"
| "ToString (JObject kvs) = ''[object Object]''"

section \<open>The Node.js functions the class calls\<close>

text \<open>
  \<^verbatim>\<open>crypto\<close>, \<^verbatim>\<open>Buffer\<close> and \<^verbatim>\<open>JSON.parse\<close> are not part of the repository: they are
  parameters of the model. \<open>node_sign alg data key\<close> stands for
  \<^verbatim>\<open>createSign(alg)\<close>, \<^verbatim>\<open>update(data)\<close>, \<^verbatim>\<open>sign(key, 'base64')\<close>, and
  \<open>node_verify alg data key sig\<close> for \<^verbatim>\<open>createVerify(alg)\<close>, \<^verbatim>\<open>update(data)\<close>,
  \<^verbatim>\<open>verify(key, sig, 'base64')\<close>; both may throw, as they do for a digest name that OpenSSL
  does not know. \<open>node_createHash alg data\<close> is the hex digest.
\<close>

record platform =
  node_generateKeyPair :: "js_error + string \<times> string"
  node_createHash :: "string \<Rightarrow> string \<Rightarrow> string"
  node_sign :: "string \<Rightarrow> string \<Rightarrow> string \<Rightarrow> js_error + string"
  node_verify :: "string \<Rightarrow> string \<Rightarrow> string \<Rightarrow> string \<Rightarrow> js_error + bool"
  node_createPublicKey :: "string \<Rightarrow> js_error + string"
  node_publicFromPrivate :: "string \<Rightarrow> js_error + string"
  node_base64_length :: "string \<Rightarrow> nat"
  node_base64_encode :: "string \<Rightarrow> string"
  node_base64_decode :: "string \<Rightarrow> string"
  node_JSON_parse :: "string \<Rightarrow> js_error + json"

section \<open>lib/db/models/crypto/digitalSignature.js\<close>

record key_pair =
  publicKey :: string
  privateKey :: string
  algorithm :: string
  keyLength :: nat
  createdAt :: string

record envelope =
  digitalSignature :: string
  documentHash :: string
  algorithm :: string
  timestamp :: string
  signerPublicKey :: string
  metadata :: "(string \<times> json) list"

record sign_result =
  success :: bool
  signature :: envelope
  documentHash :: string

datatype reason = DOCUMENT_MODIFIED | INVALID_SIGNATURE | VERIFICATION_ERROR

record verify_result =
  valid :: bool
  reason :: "reason option"
  message :: string
  details :: "(string \<times> json) list"

record timestamp_result =
  timestamp :: string
  token :: string

definition generateKeyPair :: "platform \<Rightarrow> string \<Rightarrow> js_error + key_pair" where
  "generateKeyPair p now =
     (case node_generateKeyPair p of
        Inl e \<Rightarrow> Inl (Error (''Erro ao gerar par de chaves: '' @ message_of e))
      | Inr (pub, priv) \<Rightarrow>
          Inr \<lparr>publicKey = pub, privateKey = priv, key_pair.algorithm = ''RSA'',
               keyLength = 2048, createdAt = now\<rparr>)"

text \<open>
  The expression that \<^verbatim>\<open>signDocument\<close>, \<^verbatim>\<open>verifySignature\<close> and
  \<^verbatim>\<open>createDocumentHash\<close> each write out:
  \<^verbatim>\<open>typeof document === 'string' ? document : JSON.stringify(document, Object.keys(document).sort())\<close>.
\<close>

definition documentString :: "json \<Rightarrow> js_error + string option" where
  "documentString document =
     (case document of
        JString s \<Rightarrow> Inr (Some s)
      | _ \<Rightarrow> (case Object_keys document of
                Inl e \<Rightarrow> Inl e
              | Inr ks \<Rightarrow> Inr (JSON_stringify document (Some (sort ks)))))"

text \<open>\<^verbatim>\<open>createHash(alg).update(data).digest('hex')\<close>; \<^verbatim>\<open>update\<close> throws on \<^verbatim>\<open>undefined\<close>.\<close>

definition digest_hex :: "platform \<Rightarrow> string \<Rightarrow> string option \<Rightarrow> js_error + string" where
  "digest_hex p alg data =
     (case data of
        None \<Rightarrow> Inl (TypeError ''The data argument must be of type string or a Buffer'')
      | Some s \<Rightarrow> Inr (node_createHash p alg s))"

definition extractPublicKeyFromPrivate :: "platform \<Rightarrow> string \<Rightarrow> js_error + string" where
  "extractPublicKeyFromPrivate p priv =
     (case node_publicFromPrivate p priv of
        Inl e \<Rightarrow> Inl (Error (''Erro ao extrair chave p'' @ [CHR 0xFA] @ ''blica: '' @ message_of e))
      | Inr pub \<Rightarrow> Inr pub)"

definition signDocument_try ::
  "platform \<Rightarrow> string \<Rightarrow> json \<Rightarrow> string \<Rightarrow> (string \<times> json) list \<Rightarrow> js_error + sign_result" where
  "signDocument_try p now document priv md =
     (case documentString document of
        Inl e \<Rightarrow> Inl e
      | Inr ds \<Rightarrow>
     (case digest_hex p ''sha256'' ds of
        Inl e \<Rightarrow> Inl e
      | Inr docHash \<Rightarrow>
     (case node_sign p ''sha256WithRSA'' docHash priv of
        Inl e \<Rightarrow> Inl e
      | Inr sig \<Rightarrow>
     (case extractPublicKeyFromPrivate p priv of
        Inl e \<Rightarrow> Inl e
      | Inr pub \<Rightarrow>
          Inr \<lparr>success = True,
               signature =
                 \<lparr>digitalSignature = sig,
                  envelope.documentHash = docHash,
                  envelope.algorithm = ''sha256WithRSA'',
                  envelope.timestamp = now,
                  signerPublicKey = pub,
                  metadata =
                    AList.update ''encoding'' (JString ''base64'')
                      (AList.update ''signatureSize'' (JNumber (int (node_base64_length p sig)))
                         md)\<rparr>,
               sign_result.documentHash = docHash\<rparr>))))"

definition signDocument ::
  "platform \<Rightarrow> string \<Rightarrow> json \<Rightarrow> string \<Rightarrow> (string \<times> json) list \<Rightarrow> js_error + sign_result" where
  "signDocument p now document priv md =
     (case signDocument_try p now document priv md of
        Inl e \<Rightarrow> Inl (Error (''Erro ao assinar documento: '' @ message_of e))
      | Inr r \<Rightarrow> Inr r)"

text \<open>
  \<^verbatim>\<open>verifySignature\<close>: the body of the \<^verbatim>\<open>try\<close> block first, where an exception is an
  \<open>Inl\<close>, then the function with its \<^verbatim>\<open>catch\<close>. An envelope that is \<^verbatim>\<open>undefined\<close> is
  \<open>None\<close>: destructuring it throws (for \<^verbatim>\<open>null\<close> the message ends in \<^verbatim>\<open>null\<close>).
\<close>

definition verifySignature_try ::
  "platform \<Rightarrow> json \<Rightarrow> envelope option \<Rightarrow> js_error + verify_result" where
  "verifySignature_try p document signatureData =
     (case signatureData of
        None \<Rightarrow>
          Inl (TypeError (''Cannot destructure property '' @ [CHR 0x27] @ ''digitalSignature''
                          @ [CHR 0x27] @ '' of '' @ [CHR 0x27] @ ''signatureData'' @ [CHR 0x27]
                          @ '' as it is undefined.''))
      | Some sd \<Rightarrow>
     (case documentString document of
        Inl e \<Rightarrow> Inl e
      | Inr ds \<Rightarrow>
     (case digest_hex p ''sha256'' ds of
        Inl e \<Rightarrow> Inl e
      | Inr currentHash \<Rightarrow>
          (let originalHash = envelope.documentHash sd;
               documentIntact = (currentHash = originalHash)
           in if \<not> documentIntact then
                Inr \<lparr>valid = False, reason = Some DOCUMENT_MODIFIED,
                     message = ''Documento foi modificado ap'' @ [CHR 0xF3] @ ''s a assinatura'',
                     details = [(''originalHash'', JString originalHash),
                                (''currentHash'', JString currentHash),
                                (''documentIntact'', JBool False)]\<rparr>
              else
                (case node_verify p (envelope.algorithm sd) originalHash
                        (signerPublicKey sd) (digitalSignature sd) of
                   Inl e \<Rightarrow> Inl e
                 | Inr signatureValid \<Rightarrow>
                     if \<not> signatureValid then
                       Inr \<lparr>valid = False, reason = Some INVALID_SIGNATURE,
                            message = ''Assinatura digital inv'' @ [CHR 0xE1] @ ''lida'',
                            details = [(''documentIntact'', JBool True),
                                       (''signatureValid'', JBool False)]\<rparr>
                     else
                       Inr \<lparr>valid = True, reason = None,
                            message = ''Assinatura digital v'' @ [CHR 0xE1] @ ''lida'',
                            details = [(''documentIntact'', JBool True),
                                       (''signatureValid'', JBool True),
                                       (''algorithm'', JString (envelope.algorithm sd)),
                                       (''timestamp'', JString (envelope.timestamp sd))]\<rparr>)))))"

definition verifySignature ::
  "platform \<Rightarrow> json \<Rightarrow> envelope option \<Rightarrow> js_error + verify_result" where
  "verifySignature p document signatureData =
     (case verifySignature_try p document signatureData of
        Inl e \<Rightarrow>
          Inr \<lparr>valid = False, reason = Some VERIFICATION_ERROR,
               message = ''Erro na verifica'' @ [CHR 0xE7, CHR 0xE3] @ ''o: '' @ message_of e,
               details = [(''error'', JString (message_of e))]\<rparr>
      | Inr r \<Rightarrow> Inr r)"

definition createDocumentHash :: "platform \<Rightarrow> json \<Rightarrow> js_error + string" where
  "createDocumentHash p document =
     (case documentString document of
        Inl e \<Rightarrow> Inl e
      | Inr ds \<Rightarrow> digest_hex p ''sha256'' ds)"

definition timestamp_object :: "string \<Rightarrow> string \<Rightarrow> json" where
  "timestamp_object ts h =
     JObject [(''timestamp'', JString ts), (''hash'', JString h), (''tsa'', JString ''internal-tsa'')]"

definition generateTimestamp :: "platform \<Rightarrow> string \<Rightarrow> string \<Rightarrow> js_error + timestamp_result" where
  "generateTimestamp p now data =
     (let ts = now;
          h = node_createHash p ''sha256'' (data @ ts)
      in case JSON_stringify (timestamp_object ts h) None of
           None \<Rightarrow>
             Inl (Error (''Erro ao gerar timestamp: ''
                         @ ''The first argument must be of type string or a Buffer''))
         | Some text \<Rightarrow> Inr \<lparr>timestamp = ts, token = node_base64_encode p text\<rparr>)"

definition verifyTimestamp_try :: "platform \<Rightarrow> string \<Rightarrow> string \<Rightarrow> js_error + bool" where
  "verifyTimestamp_try p tok data =
     (case node_JSON_parse p (node_base64_decode p tok) of
        Inl e \<Rightarrow> Inl e
      | Inr timestampData \<Rightarrow>
     (case get_property timestampData ''timestamp'' of
        Inl e \<Rightarrow> Inl e
      | Inr ts \<Rightarrow>
          (let expectedHash = node_createHash p ''sha256'' (data @ ToString ts)
           in case get_property timestampData ''hash'' of
                Inl e \<Rightarrow> Inl e
              | Inr h \<Rightarrow> Inr (JString expectedHash = h))))"

definition verifyTimestamp :: "platform \<Rightarrow> string \<Rightarrow> string \<Rightarrow> bool" where
  "verifyTimestamp p tok data =
     (case verifyTimestamp_try p tok data of Inl e \<Rightarrow> False | Inr b \<Rightarrow> b)"

definition excludeFields :: "string list" where
  "excludeFields = [''_id'', ''__v'', ''createdAt'', ''updatedAt'', ''signature'', ''history'']"

text \<open>
  Object spread \<^verbatim>\<open>{ ...document }\<close> copies the own enumerable properties: those of an
  object, the indexed elements of an array or string, none of any other value.
\<close>

fun spread :: "json \<Rightarrow> (string \<times> json) list" where
  "spread (JObject kvs) = kvs"
| "spread (JArray xs) = zip (map nat_to_string [0..<length xs]) xs"
| "spread (JString s) = zip (map nat_to_string [0..<length s]) (map (\<lambda>c. JString [c]) s)"
| "spread v = []"

definition canonicalizeDocument :: "json \<Rightarrow> json" where
  "canonicalizeDocument document =
     (let cleanDocument = filter (\<lambda>(field, v). field \<notin> set excludeFields) (spread document)
      in case JSON_stringify (JObject cleanDocument) (Some (sort (map fst cleanDocument))) of
           None \<Rightarrow> JUndefined
         | Some s \<Rightarrow> JString s)"

section \<open>The Signature model\<close>

text \<open>
  The Mongoose model of a stored signature, with the fields its methods read or write,
  holding values that the schema accepts: identifiers are ObjectIds, and the algorithm, the
  verification method and the revocation reason are values of their enumerations (with
  other values \<^verbatim>\<open>save()\<close> rejects the record). Dates are milliseconds since the epoch; a
  field that is \<^verbatim>\<open>null\<close> or unset is \<open>None\<close>. \<^verbatim>\<open>certificate\<close> is a nested path of the
  schema, so \<^verbatim>\<open>this.certificate\<close> is always an object; a record without a certificate has
  none of its fields set. \<open>isNew\<close> and \<open>status_modified\<close> are Mongoose's own bookkeeping
  (\<^verbatim>\<open>this.isNew\<close>, \<^verbatim>\<open>this.isModified('status')\<close>); the last three fields are the transient
  \<^verbatim>\<open>_performedBy\<close>, \<^verbatim>\<open>_actionReason\<close> and \<^verbatim>\<open>_actionDetails\<close>. The paths that the methods
  do not write are taken to hold valid values, and the write to the database to succeed.
\<close>

datatype objectid = ObjectId nat

datatype status = Valid | Invalid | Revoked | Expired | Pending_verification

datatype signature_algorithm = SHA256withRSA | SHA256withECDSA | SHA512withRSA

fun algorithm_name :: "signature_algorithm \<Rightarrow> string" where
  "algorithm_name SHA256withRSA = ''SHA256withRSA''"
| "algorithm_name SHA256withECDSA = ''SHA256withECDSA''"
| "algorithm_name SHA512withRSA = ''SHA512withRSA''"

datatype verification_method = Automatic | Manual

datatype revocation_reason =
  Key_compromise | Affiliation_changed | Superseded | Cessation_of_operation
  | Privilege_withdrawn

fun revocation_reason_name :: "revocation_reason \<Rightarrow> string" where
  "revocation_reason_name Key_compromise = ''key_compromise''"
| "revocation_reason_name Affiliation_changed = ''affiliation_changed''"
| "revocation_reason_name Superseded = ''superseded''"
| "revocation_reason_name Cessation_of_operation = ''cessation_of_operation''"
| "revocation_reason_name Privilege_withdrawn = ''privilege_withdrawn''"

record certificate =
  serialNumber :: "string option"
  issuer :: "string option"
  subject :: "string option"
  validFrom :: "int option"
  validTo :: "int option"
  fingerprint :: "string option"

record verification_details =
  signatureValid :: bool
  certificateValid :: bool
  timestampValid :: bool
  documentIntact :: bool
  errors :: "string list"

record verification =
  verifiedAt :: int
  verifiedBy :: objectid
  result :: string
  details :: verification_details
  method_v :: verification_method

record audit_entry =
  action :: string
  performedBy :: "objectid option"
  timestamp :: int
  reason :: "string option"
  details :: "json option"

record revocation =
  revokedAt :: int
  revokedBy :: objectid
  reason :: revocation_reason
  details :: string

record signature_record =
  document :: objectid
  signer :: objectid
  digitalSignature :: string
  documentHash :: string
  algorithm :: signature_algorithm
  publicKey :: string
  certificate :: certificate
  signedAt :: int
  timestampToken :: "string option"
  status :: status
  verifications :: "verification list"
  auditTrail :: "audit_entry list"
  revocation :: "revocation option"
  isNew :: bool
  status_modified :: bool
  performedBy_t :: "objectid option"
  actionReason_t :: "string option"
  actionDetails_t :: "json option"

text \<open>
  Assigning \<^verbatim>\<open>this.status\<close>: Mongoose marks the path modified when the document is new or
  the value changes.
\<close>

definition set_status :: "signature_record \<Rightarrow> status \<Rightarrow> signature_record" where
  "set_status r s =
     r\<lparr>status := s, status_modified := (status_modified r \<or> isNew r \<or> s \<noteq> status r)\<rparr>"

definition pre_save :: "int \<Rightarrow> signature_record \<Rightarrow> signature_record" where
  "pre_save now r =
     (if status_modified r \<and> \<not> isNew r then
        r\<lparr>auditTrail := auditTrail r @
             [\<lparr>action = (if status r = Valid then ''verified''
                         else if status r = Invalid then ''invalidated''
                         else if status r = Revoked then ''revoked'' else ''created''),
               performedBy = performedBy_t r,
               audit_entry.timestamp = now,
               audit_entry.reason = actionReason_t r,
               audit_entry.details = actionDetails_t r\<rparr>]\<rparr>
      else r)"

text \<open>
  \<^verbatim>\<open>save()\<close>: validation runs before the \<^verbatim>\<open>pre('save')\<close> hook of the schema, so the audit
  entry that the hook pushes is written as it is.
\<close>

definition save :: "int \<Rightarrow> signature_record \<Rightarrow> signature_record" where
  "save now r = (pre_save now r)\<lparr>isNew := False, status_modified := False\<rparr>"

definition bind_err :: "'e + 'a \<Rightarrow> ('a \<Rightarrow> 'e + 'b) \<Rightarrow> 'e + 'b" where
  "bind_err m f = (case m of Inl e \<Rightarrow> Inl e | Inr x \<Rightarrow> f x)"

primrec map_err :: "('a \<Rightarrow> 'e + 'b) \<Rightarrow> 'a list \<Rightarrow> 'e + 'b list" where
  "map_err f [] = Inr []"
| "map_err f (x # xs) = bind_err (f x) (\<lambda>y. bind_err (map_err f xs) (\<lambda>ys. Inr (y # ys)))"

text \<open>\<^verbatim>\<open>s.replace(pat, rep)\<close> with a string pattern replaces the first occurrence.\<close>

fun replace_first :: "string \<Rightarrow> string \<Rightarrow> string \<Rightarrow> string" where
  "replace_first pat rep [] = (if pat = [] then rep else [])"
| "replace_first pat rep (c # cs) =
     (if take (length pat) (c # cs) = pat then rep @ drop (length pat) (c # cs)
      else c # replace_first pat rep cs)"

definition receipt_view :: "json \<Rightarrow> js_error + json" where
  "receipt_view r =
     bind_err (get_property r ''filename'') (\<lambda>filename.
     bind_err (get_property r ''size'') (\<lambda>size.
     bind_err (get_property r ''mimetype'') (\<lambda>mimetype.
       Inr (JObject [(''filename'', filename), (''size'', size), (''mimetype'', mimetype)]))))"

definition receipts_map :: "json \<Rightarrow> js_error + json" where
  "receipts_map receipts =
     (case receipts of
        JArray rs \<Rightarrow> bind_err (map_err receipt_view rs) (\<lambda>vs. Inr (JArray vs))
      | JUndefined \<Rightarrow>
          Inl (TypeError (''Cannot read properties of undefined (reading '' @ [CHR 0x27] @ ''map''
                          @ [CHR 0x27] @ '')''))
      | JNull \<Rightarrow>
          Inl (TypeError (''Cannot read properties of null (reading '' @ [CHR 0x27] @ ''map''
                          @ [CHR 0x27] @ '')''))
      | _ \<Rightarrow> Inl (TypeError ''document.receipts.map is not a function''))"

definition calculateDocumentHash :: "platform \<Rightarrow> json \<Rightarrow> js_error + string" where
  "calculateDocumentHash p doc =
     bind_err (get_property doc ''title'') (\<lambda>title.
     bind_err (get_property doc ''description'') (\<lambda>description.
     bind_err (get_property doc ''amount'') (\<lambda>amount.
     bind_err (get_property doc ''currency'') (\<lambda>currency.
     bind_err (get_property doc ''category'') (\<lambda>category.
     bind_err (get_property doc ''expenseDate'') (\<lambda>expenseDate.
     bind_err (get_property doc ''employee'') (\<lambda>employee.
     bind_err (get_property doc ''receipts'') (\<lambda>receipts.
     bind_err (receipts_map receipts) (\<lambda>receipts'.
       (let documentData =
              [(''title'', title), (''description'', description), (''amount'', amount),
               (''currency'', currency), (''category'', category),
               (''expenseDate'', expenseDate), (''employee'', employee),
               (''receipts'', receipts')]
        in digest_hex p ''sha256''
             (JSON_stringify (JObject documentData) (Some (sort (map fst documentData)))))
     )))))))))"

definition verifyTimestamp_record :: "signature_record \<Rightarrow> bool" where
  "verifyTimestamp_record r =
     (case timestampToken r of
        None \<Rightarrow> True
      | Some tok \<Rightarrow> if tok = [] then True else 0 < length tok)"

text \<open>
  The checks of \<^verbatim>\<open>verify\<close>, in the order of the \<^verbatim>\<open>try\<close> block: they come before any
  write to the record, so an exception leaves the record as it was when the \<^verbatim>\<open>catch\<close>
  branch starts. \<open>findById\<close> is \<^verbatim>\<open>Expense.findById\<close> (\<open>JNull\<close> when there is no such
  document). \<^verbatim>\<open>this.certificate\<close> is always an object, so the test
  \<^verbatim>\<open>if (this.certificate)\<close> always passes and isCertificateValid is
  \<^verbatim>\<open>this.certificate.validTo > new Date()\<close>, which is false when \<^verbatim>\<open>validTo\<close> is not set.
  The result is (isSignatureValid, isDocumentIntact, isCertificateValid, isTimestampValid).
\<close>

definition verify_checks ::
  "platform \<Rightarrow> (objectid \<Rightarrow> js_error + json) \<Rightarrow> int \<Rightarrow> signature_record
     \<Rightarrow> js_error + (bool \<times> bool \<times> bool \<times> bool)" where
  "verify_checks p findById now r =
     bind_err (node_createPublicKey p (publicKey r)) (\<lambda>pub.
     bind_err (node_verify p
                 (replace_first ''with'' [] (algorithm_name (signature_record.algorithm r)))
                 (signature_record.documentHash r) pub (signature_record.digitalSignature r))
       (\<lambda>isSignatureValid.
     bind_err (findById (document r)) (\<lambda>doc.
     bind_err (calculateDocumentHash p doc) (\<lambda>currentDocumentHash.
       (let isDocumentIntact = (currentDocumentHash = signature_record.documentHash r);
            isCertificateValid =
              (case validTo (certificate r) of None \<Rightarrow> False | Some t \<Rightarrow> now < t);
            isTimestampValid =
              (case timestampToken r of
                 None \<Rightarrow> True
               | Some tok \<Rightarrow> if tok = [] then True else verifyTimestamp_record r)
        in Inr (isSignatureValid, isDocumentIntact, isCertificateValid, isTimestampValid))))))"

definition verify ::
  "platform \<Rightarrow> (objectid \<Rightarrow> js_error + json) \<Rightarrow> int \<Rightarrow> signature_record
     \<Rightarrow> objectid \<Rightarrow> verification_method \<Rightarrow> bool \<times> signature_record" where
  "verify p findById now r who how =
     (case verify_checks p findById now r of
        Inr (isSignatureValid, isDocumentIntact, isCertificateValid, isTimestampValid) \<Rightarrow>
          (let isValid = (isSignatureValid \<and> isDocumentIntact \<and> isCertificateValid
                           \<and> isTimestampValid);
               r1 = r\<lparr>verifications := verifications r @
                      [\<lparr>verifiedAt = now, verifiedBy = who,
                        result = (if isValid then ''valid'' else ''invalid''),
                        verification.details =
                          \<lparr>signatureValid = isSignatureValid,
                           certificateValid = isCertificateValid,
                           timestampValid = isTimestampValid,
                           documentIntact = isDocumentIntact,
                           errors = []\<rparr>, method_v = how\<rparr>]\<rparr>;
               r2 = (if status r1 = Pending_verification then
                       (set_status r1 (if isValid then Valid else Invalid))
                         \<lparr>performedBy_t := Some who,
                          actionReason_t :=
                            Some (''Verifica'' @ [CHR 0xE7, CHR 0xE3] @ ''o autom''
                                  @ [CHR 0xE1] @ ''tica da assinatura'')\<rparr>
                     else r1)
           in (isValid, save now r2))
      | Inl e \<Rightarrow>
          (let r1 = r\<lparr>verifications := verifications r @
                      [\<lparr>verifiedAt = now, verifiedBy = who, result = ''invalid'',
                        verification.details =
                          \<lparr>signatureValid = False, certificateValid = False,
                           timestampValid = False, documentIntact = False,
                           errors = [message_of e]\<rparr>, method_v = how\<rparr>]\<rparr>;
               r2 = (set_status r1 Invalid)
                      \<lparr>performedBy_t := Some who,
                       actionReason_t :=
                         Some (''Erro na verifica'' @ [CHR 0xE7, CHR 0xE3]
                               @ ''o da assinatura''),
                       actionDetails_t := Some (JObject [(''error'', JString (message_of e))])\<rparr>
           in (False, save now r2)))"

definition revoke ::
  "int \<Rightarrow> signature_record \<Rightarrow> objectid \<Rightarrow> revocation_reason \<Rightarrow> string
     \<Rightarrow> signature_record" where
  "revoke now r who why what =
     save now
       ((set_status r Revoked)
          \<lparr>revocation := Some \<lparr>revokedAt = now, revokedBy = who,
                                revocation.reason = why, revocation.details = what\<rparr>,
           performedBy_t := Some who,
           actionReason_t := Some (revocation_reason_name why),
           actionDetails_t := Some (JString what)\<rparr>)"

section \<open>Notions used to state the properties\<close>

text \<open>
  \<open>remove_key P v\<close> is \<open>v\<close> with the property named \<open>P\<close> deleted from every object in it,
  at any depth.
\<close>

primrec remove_key :: "string \<Rightarrow> json \<Rightarrow> json" where
  "remove_key P JUndefined = JUndefined"
| "remove_key P JNull = JNull"
| "remove_key P (JBool b) = JBool b"
| "remove_key P (JNumber n) = JNumber n"
| "remove_key P (JString s) = JString s"
| "remove_key P (JArray xs) = JArray (map (remove_key P) xs)"
| "remove_key P (JObject kvs) =
     JObject (filter (\<lambda>(k, v). k \<noteq> P) (map (map_prod id (remove_key P)) kvs))"


text \<open>
  \<open>string_object kvs\<close>: the properties \<open>kvs\<close> of an object are strings under distinct
  names, none of which starts with a digit (so none is an array index, which JavaScript
  would list first). For such an object \<^verbatim>\<open>JSON.parse(JSON.stringify(o))\<close> is \<^verbatim>\<open>o\<close> again,
  with its properties in the same order. \<open>member_text\<close> is the text of one member.
\<close>

fun is_string :: "json \<Rightarrow> bool" where
  "is_string (JString t) = True"
| "is_string v = False"

definition plain_key :: "string \<Rightarrow> bool" where
  "plain_key k = (case k of [] \<Rightarrow> True | c # cs \<Rightarrow> c \<notin> set ''0123456789'')"

definition string_object :: "(string \<times> json) list \<Rightarrow> bool" where
  "string_object kvs =
     (distinct (map fst kvs) \<and> list_all (\<lambda>(k, v). plain_key k \<and> is_string v) kvs)"

definition member_text :: "string \<times> json \<Rightarrow> string" where
  "member_text m =
     QuoteJSONString (fst m) @ '':'' @
       (case SerializeJSONProperty None (snd m) of None \<Rightarrow> [] | Some s \<Rightarrow> s)"

section \<open>A small platform and sample data\<close>

text \<open>
  A parser for the JSON text of an object whose properties are strings: \<open>unquote\<close> reads
  a string literal after its opening quote and returns its value and the text behind the
  closing quote, \<open>parse_members\<close> reads the members up to the closing brace.
\<close>

definition hex_value :: "char \<Rightarrow> nat option" where
  "hex_value c = map_of (zip ''0123456789abcdef'' [0..<16]) c"

definition unescape :: "char \<Rightarrow> char option" where
  "unescape e =
     map_of [(CHR ''b'', CHR 0x08), (CHR ''t'', CHR 0x09), (CHR ''n'', CHR 0x0A),
             (CHR ''f'', CHR 0x0C), (CHR ''r'', CHR 0x0D), (CHR 0x22, CHR 0x22),
             (CHR 0x5C, CHR 0x5C), (CHR ''/'', CHR ''/'')] e"

definition unescape_unicode :: "char \<Rightarrow> char \<Rightarrow> char \<Rightarrow> char \<Rightarrow> char option" where
  "unescape_unicode a b c d =
     (case (hex_value a, hex_value b, hex_value c, hex_value d) of
        (Some h3, Some h2, Some h1, Some h0) \<Rightarrow>
          if h3 = 0 \<and> h2 = 0 then Some (char_of (h1 * 16 + h0)) else None
      | _ \<Rightarrow> None)"

definition prepend :: "char option \<Rightarrow> (string \<times> string) option \<Rightarrow> (string \<times> string) option" where
  "prepend x r =
     (case x of
        None \<Rightarrow> None
      | Some c \<Rightarrow> (case r of None \<Rightarrow> None | Some (s, rest) \<Rightarrow> Some (c # s, rest)))"

fun unquote :: "string \<Rightarrow> (string \<times> string) option" where
  "unquote [] = None"
| "unquote (c # cs) =
     (if c = CHR 0x22 then Some ([], cs)
      else if c = CHR 0x5C then
        (case cs of
           [] \<Rightarrow> None
         | e # r \<Rightarrow>
             if e = CHR ''u'' then
               (case r of
                  a # b # c' # d # r' \<Rightarrow> prepend (unescape_unicode a b c' d) (unquote r')
                | _ \<Rightarrow> None)
             else prepend (unescape e) (unquote r))
      else if (of_char c :: nat) < 32 then None
      else prepend (Some c) (unquote cs))"

definition expect :: "string \<Rightarrow> string \<Rightarrow> string option" where
  "expect pre s = (if take (length pre) s = pre then Some (drop (length pre) s) else None)"

function parse_members :: "string \<Rightarrow> (string \<times> json) list option" where
  "parse_members s =
     (case s of
        [] \<Rightarrow> None
      | q # r0 \<Rightarrow>
          if q \<noteq> CHR 0x22 then None
          else
            (case unquote r0 of
               None \<Rightarrow> None
             | Some (k, r1) \<Rightarrow>
                 (case expect ('':'' @ [CHR 0x22]) r1 of
                    None \<Rightarrow> None
                  | Some r2 \<Rightarrow>
                      (case unquote r2 of
                         None \<Rightarrow> None
                       | Some (v, r3) \<Rightarrow>
                           if r3 = ''}'' then Some [(k, JString v)]
                           else
                             (case expect '','' r3 of
                                None \<Rightarrow> None
                              | Some r4 \<Rightarrow>
                                  map_option ((#) (k, JString v)) (parse_members r4))))))"
  by pat_completeness auto
termination
proof (relation "measure length")
  show "wf (measure length)" by simp
next
  have prepended: "\<exists>c s'. r = Some (s', rest) \<and> s = c # s'"
    if "prepend x r = Some (s, rest)" for x r s rest
    using that by (auto simp: prepend_def split: option.splits)
  have shorter: "length r < length s" if "unquote s = Some (x, r)" for s x r
    using that
  proof (induction s arbitrary: x r rule: unquote.induct)
    case 1
    then show ?case by simp
  next
    case (2 c cs)
    show ?case
    proof (cases "c = CHR 0x22")
      case True
      with "2.prems" show ?thesis by simp
    next
      case quote: False
      show ?thesis
      proof (cases "c = CHR 0x5C")
        case False
        with quote "2.prems" have "\<not> (of_char c :: nat) < 32"
          and "prepend (Some c) (unquote cs) = Some (x, r)"
          by (auto split: if_splits)
        then obtain s' where "unquote cs = Some (s', r)"
          by (auto dest: prepended)
        with "2.IH"(3) [OF quote False \<open>\<not> (of_char c :: nat) < 32\<close>] show ?thesis
          by fastforce
      next
        case True
        with quote "2.prems" obtain e r0 where cs: "cs = e # r0"
          by (cases cs) auto
        show ?thesis
        proof (cases "e = CHR ''u''")
          case False
          with quote True cs "2.prems" have "prepend (unescape e) (unquote r0) = Some (x, r)"
            by simp
          then obtain s' where "unquote r0 = Some (s', r)"
            by (auto dest: prepended)
          with "2.IH"(2) [OF quote True cs False] have "length r < length r0"
            by fastforce
          with cs show ?thesis by simp
        next
          case u: True
          with quote True cs "2.prems" obtain a b c' d r' where r0: "r0 = a # b # c' # d # r'"
            by (auto split: list.splits)
          with quote True cs u "2.prems"
          have "prepend (unescape_unicode a b c' d) (unquote r') = Some (x, r)"
            by simp
          then obtain s' where "unquote r' = Some (s', r)"
            by (auto dest: prepended)
          with "2.IH"(1) [OF quote True cs u r0] have "length r < length r'"
            by fastforce
          with cs r0 show ?thesis by simp
        qed
      qed
    qed
  qed
  fix s q r0 x2 k r1 r2 x2a v r3 r4
  assume s: "s = q # r0"
    and k: "unquote r0 = Some x2" "(k, r1) = x2"
    and r2: "expect ('':'' @ [CHR 0x22]) r1 = Some r2"
    and v: "unquote r2 = Some x2a" "(v, r3) = x2a"
    and r4: "expect '','' r3 = Some r4"
  from k have "length r1 < length r0"
    by (auto dest: shorter)
  moreover from r2 have "length r2 \<le> length r1"
    by (auto simp: expect_def split: if_splits)
  moreover from v have "length r3 < length r2"
    by (auto dest: shorter)
  moreover from r4 have "length r4 \<le> length r3"
    by (auto simp: expect_def split: if_splits)
  ultimately show "(r4, s) \<in> measure length"
    using s by simp
qed

declare parse_members.simps [simp del]

definition sample_JSON_parse :: "string \<Rightarrow> js_error + json" where
  "sample_JSON_parse s =
     (case s of
        [] \<Rightarrow> Inl (Error ''Unexpected end of JSON input'')
      | c # r \<Rightarrow>
          if c \<noteq> CHR ''{'' then Inl (Error ''Unexpected token'')
          else if r = ''}'' then Inr (JObject [])
          else (case parse_members r of
                  None \<Rightarrow> Inl (Error ''Unexpected token'')
                | Some kvs \<Rightarrow> Inr (JObject kvs)))"

text \<open>
  A platform on which the functions can be run. Like OpenSSL it knows the digest names
  \<^verbatim>\<open>RSA-SHA256\<close>, \<^verbatim>\<open>sha256WithRSAEncryption\<close>, \<^verbatim>\<open>sha256\<close> and their SHA-512 counterparts,
  and rejects every other name, \<^verbatim>\<open>sha256WithRSA\<close>, \<^verbatim>\<open>SHA256RSA\<close>, \<^verbatim>\<open>SHA256ECDSA\<close> and
  \<^verbatim>\<open>SHA512RSA\<close> among them. The digest is the text itself, the one key pair is
  \<open>''PRIV''\<close> and \<open>''PUB''\<close>, a signature is the signed text behind a tag, every other key is
  rejected as malformed, and base64 is the identity.
\<close>

definition sample_digest_names :: "string list" where
  "sample_digest_names =
     [''RSA-SHA256'', ''sha256WithRSAEncryption'', ''sha256'', ''SHA256'',
      ''RSA-SHA512'', ''sha512WithRSAEncryption'', ''sha512'', ''SHA512'']"

definition sample_platform :: platform where
  "sample_platform =
     \<lparr>node_generateKeyPair = Inr (''PUB'', ''PRIV''),
      node_createHash = (\<lambda>alg data. data),
      node_sign = (\<lambda>alg data key.
         if alg \<notin> set sample_digest_names then Inl (Error ''Invalid digest'')
         else if key = ''PRIV'' then Inr (''signed:'' @ data)
         else Inl (Error ''unsupported key'')),
      node_verify = (\<lambda>alg data key sig.
         if alg \<notin> set sample_digest_names then Inl (Error ''Invalid digest'')
         else if key = ''PUB'' then Inr (sig = ''signed:'' @ data)
         else Inl (Error ''unsupported key'')),
      node_createPublicKey = (\<lambda>pem.
         if pem = ''PUB'' then Inr pem else Inl (Error ''unsupported key'')),
      node_publicFromPrivate = (\<lambda>key.
         if key = ''PRIV'' then Inr ''PUB'' else Inl (Error ''unsupported key'')),
      node_base64_length = length,
      node_base64_encode = (\<lambda>s. s),
      node_base64_decode = (\<lambda>s. s),
      node_JSON_parse = sample_JSON_parse\<rparr>"

text \<open>
  The same platform, except that its signature check takes every digest name as known. It
  serves to run the code of \<open>verify\<close> behind \<^verbatim>\<open>crypto.createVerify\<close>, which the names
  that \<open>verify\<close> passes never reach on OpenSSL.
\<close>

definition any_digest_platform :: platform where
  "any_digest_platform =
     sample_platform\<lparr>node_verify := (\<lambda>alg data key sig.
        if key = ''PUB'' then Inr (sig = ''signed:'' @ data)
        else Inl (Error ''unsupported key''))\<rparr>"

text \<open>
  An expense with one receipt, and the Signature record made for it when it was signed: the
  stored hash is the one \<open>calculateDocumentHash\<close> gives for the expense, the signature is a
  genuine signature over that hash, there is no certificate, and the record has been saved
  once.
\<close>

definition sample_expense :: json where
  "sample_expense =
     JObject [(''title'', JString ''Flight''), (''description'', JString ''Trip to client''),
              (''amount'', JNumber 120), (''currency'', JString ''BRL''),
              (''category'', JString ''travel''), (''expenseDate'', JString ''2024-01-01''),
              (''employee'', JString ''user-1''),
              (''receipts'', JArray [JObject [(''filename'', JString ''r.pdf''),
                                              (''size'', JNumber 10),
                                              (''mimetype'', JString ''application/pdf'')]])]"

definition sample_findById :: "objectid \<Rightarrow> js_error + json" where
  "sample_findById ident = (if ident = ObjectId 1 then Inr sample_expense else Inr JNull)"

definition sample_hash :: string where
  "sample_hash =
     (case calculateDocumentHash sample_platform sample_expense of Inr h \<Rightarrow> h | Inl e \<Rightarrow> [])"

definition sample_record :: signature_record where
  "sample_record =
     \<lparr>document = ObjectId 1, signer = ObjectId 2,
      signature_record.digitalSignature = ''signed:'' @ sample_hash,
      signature_record.documentHash = sample_hash,
      signature_record.algorithm = SHA256withRSA,
      publicKey = ''PUB'',
      certificate = \<lparr>serialNumber = None, issuer = None, subject = None, validFrom = None,
                      validTo = None, fingerprint = None\<rparr>,
      signedAt = 1000, timestampToken = None,
      status = Pending_verification, verifications = [], auditTrail = [], revocation = None,
      isNew = False, status_modified = False,
      performedBy_t = None, actionReason_t = None, actionDetails_t = None\<rparr>"

section \<open>Serialization lemmas\<close>

lemma set_property_list: "set (property_list acc ks) = set acc \<union> set ks"
  by (induction ks arbitrary: acc) auto




lemma map_of_map_prod:
  "map_of (map (map_prod id f) kvs) k = map_option f (map_of kvs k)"
  by (induction kvs) auto

lemma map_filter_cong_set:
  "(\<And>x. x \<in> set xs \<Longrightarrow> f x = g x) \<Longrightarrow> List.map_filter f xs = List.map_filter g xs"
proof (induction xs)
  case Nil
  show ?case by (simp add: List.map_filter_simps)
next
  case (Cons a xs)
  have "f a = g a" by (rule Cons.prems) simp
  moreover have "List.map_filter f xs = List.map_filter g xs"
    by (rule Cons.IH) (simp add: Cons.prems)
  ultimately show ?case by (simp add: List.map_filter_simps split: option.splits)
qed

lemma map_of_filter_key:
  "map_of (filter (\<lambda>(k, v). Q k) kvs) k = (if Q k then map_of kvs k else None)"
  by (induction kvs) auto

lemma object_member_map:
  "object_member (map (map_prod id f) kvs) P =
     (case map_of kvs P of
        None \<Rightarrow>
          if P = ''__proto__''
          then Some (QuoteJSONString P @ '':'' @ ''{'' @ QuoteJSONString P @ '':null}'')
          else None
      | Some v \<Rightarrow> map_option (\<lambda>s. QuoteJSONString P @ '':'' @ s) (f v))"
  by (simp add: object_member_def map_of_map_prod split: option.splits)





section \<open>Canonicalization\<close>



lemma serialize_remove_key:
  "P \<notin> set K \<Longrightarrow>
   SerializeJSONProperty (Some K) (remove_key P v) = SerializeJSONProperty (Some K) v"
proof (induction v)
  case (JArray xs)
  then have "map (\<lambda>x. array_element (SerializeJSONProperty (Some K) (remove_key P x))) xs
             = map (\<lambda>x. array_element (SerializeJSONProperty (Some K) x)) xs"
    by (intro map_cong) auto
  then have "join '','' (map array_element (map (SerializeJSONProperty (Some K)) (map (remove_key P) xs)))
             = join '','' (map array_element (map (SerializeJSONProperty (Some K)) xs))"
    by (simp only: map_map comp_def)
  then show ?case by (simp only: SerializeJSONProperty.simps remove_key.simps)
next
  case (JObject kvs)
  have "object_member (map (map_prod id (SerializeJSONProperty (Some K)))
            (filter (\<lambda>(k, v). k \<noteq> P) (map (map_prod id (remove_key P)) kvs))) Q
        = object_member (map (map_prod id (SerializeJSONProperty (Some K))) kvs) Q"
    if "Q \<in> set K" for Q
  proof -
    from that JObject.prems have neq: "Q \<noteq> P" by auto
    show ?thesis
    proof (cases "map_of kvs Q")
      case None
      with neq show ?thesis
        by (simp add: object_member_map map_of_filter_key map_of_map_prod)
    next
      case (Some v)
      then have "(Q, v) \<in> set kvs" by (rule map_of_SomeD)
      then have "SerializeJSONProperty (Some K) (remove_key P v)
                 = SerializeJSONProperty (Some K) v"
        using JObject.IH JObject.prems by fastforce
      with Some neq show ?thesis
        by (simp add: object_member_map map_of_filter_key map_of_map_prod)
    qed
  qed
  then have "List.map_filter (object_member (map (map_prod id (SerializeJSONProperty (Some K)))
            (filter (\<lambda>(k, v). k \<noteq> P) (map (map_prod id (remove_key P)) kvs)))) K
        = List.map_filter (object_member (map (map_prod id (SerializeJSONProperty (Some K))) kvs)) K"
    by (rule map_filter_cong_set)
  then show ?case by simp
qed simp_all

lemma remove_key_top_keys:
  "P \<notin> fst ` set kvs \<Longrightarrow>
   map fst (filter (\<lambda>(k, v). k \<noteq> P) (map (map_prod id f) kvs)) = map fst kvs"
  by (induction kvs) auto

lemma documentString_remove_key:
  assumes "P \<notin> fst ` set kvs"
  shows "documentString (remove_key P (JObject kvs)) = documentString (JObject kvs)"
proof -
  have "P \<notin> set (property_list [] (sort (map fst kvs)))"
    using assms by (simp add: set_property_list)
  then have "SerializeJSONProperty (Some (property_list [] (sort (map fst kvs))))
               (remove_key P (JObject kvs))
           = SerializeJSONProperty (Some (property_list [] (sort (map fst kvs)))) (JObject kvs)"
    by (rule serialize_remove_key)
  then show ?thesis
    using assms
    by (simp add: documentString_def JSON_stringify_def remove_key_top_keys del: SerializeJSONProperty.simps)
qed

lemma canonicalizeDocument_remove_key:
  assumes "P \<notin> fst ` set kvs"
  shows "canonicalizeDocument (remove_key P (JObject kvs)) = canonicalizeDocument (JObject kvs)"
proof -
  let ?clean = "filter (\<lambda>(field, v). field \<notin> set excludeFields) kvs"
  let ?K = "property_list [] (sort (map fst ?clean))"
  have clean: "filter (\<lambda>(field, v). field \<notin> set excludeFields)
                 (filter (\<lambda>(k, v). k \<noteq> P) (map (map_prod id (remove_key P)) kvs))
             = filter (\<lambda>(k, v). k \<noteq> P) (map (map_prod id (remove_key P)) ?clean)"
    by (induction kvs) auto
  have notin: "P \<notin> fst ` set ?clean" using assms by auto
  then have "P \<notin> set ?K" by (simp add: set_property_list del: set_filter)
  then have ser: "SerializeJSONProperty (Some ?K) (remove_key P (JObject ?clean))
           = SerializeJSONProperty (Some ?K) (JObject ?clean)"
    by (rule serialize_remove_key)
  have "canonicalizeDocument (remove_key P (JObject kvs))
      = (case SerializeJSONProperty (Some ?K) (remove_key P (JObject ?clean)) of
           None \<Rightarrow> JUndefined | Some s \<Rightarrow> JString s)"
    unfolding canonicalizeDocument_def JSON_stringify_def Let_def
    by (simp only: remove_key.simps spread.simps clean remove_key_top_keys [OF notin] option.map)
  also have "\<dots> = canonicalizeDocument (JObject kvs)"
    unfolding canonicalizeDocument_def JSON_stringify_def Let_def
    by (simp only: ser spread.simps option.map)
  finally show ?thesis .
qed

text \<open>
  C10. The sorted list of top-level keys is the replacer, so it filters the properties of
  every object at every depth. A name \<open>P\<close> that is not a top-level key of the document is
  therefore left out wherever it occurs below: the canonical string, the string that is
  hashed for signing, the document hash and the whole result of \<open>signDocument\<close> are those
  of the document with \<open>P\<close> deleted from all its nested objects.
\<close>

theorem nested_keys_outside_whitelist_omitted:
  "P \<notin> fst ` set kvs \<longrightarrow>
     canonicalizeDocument (remove_key P (JObject kvs)) = canonicalizeDocument (JObject kvs)
   \<and> documentString (remove_key P (JObject kvs)) = documentString (JObject kvs)
   \<and> createDocumentHash p (remove_key P (JObject kvs)) = createDocumentHash p (JObject kvs)
   \<and> signDocument p now (remove_key P (JObject kvs)) priv md
       = signDocument p now (JObject kvs) priv md"
  by (simp add: canonicalizeDocument_remove_key documentString_remove_key createDocumentHash_def
        signDocument_def signDocument_try_def del: remove_key.simps)

theorem nested_keys_outside_whitelist_omitted_witness:
  "canonicalizeDocument
     (JObject [(''title'', JString ''Flight''),
               (''receipts'', JArray [JObject [(''size'', JNumber 10)]])])
   = canonicalizeDocument
     (JObject [(''title'', JString ''Flight''),
               (''receipts'', JArray [JObject [(''filename'', JString ''r.pdf''),
                                               (''size'', JNumber 10)]])])"
  using nested_keys_outside_whitelist_omitted
    [of "''filename''"
        "[(''title'', JString ''Flight''),
          (''receipts'', JArray [JObject [(''filename'', JString ''r.pdf''),
                                          (''size'', JNumber 10)]])]"]
  by simp

text \<open>
  C7, as stated, fails: \<open>canonicalizeDocument\<close> takes a structured document; given its own
  output, a string, it spreads the characters into an object with index keys. For the empty
  document the canonical string is \<^verbatim>\<open>{}\<close>, and canonicalizing that string gives
  \<^verbatim>\<open>{"0":"{","1":"}"}\<close>.
\<close>

theorem canonicalizeDocument_not_idempotent:
  "canonicalizeDocument (canonicalizeDocument (JObject [])) \<noteq> canonicalizeDocument (JObject [])"
  by (simp add: canonicalizeDocument_def JSON_stringify_def List.map_filter_simps
        object_member_def excludeFields_def QuoteJSONString_def quote_unit_def digit_char_def)

text \<open>
  C7, amended. The canonicalization that signing, verification and \<open>createDocumentHash\<close>
  apply (a string is taken as it is, any other document is serialized with its sorted
  top-level keys) is idempotent: applied to its own output it returns that output, and the
  document hash is the same.
\<close>

theorem documentString_idempotent:
  "documentString D = Inr (Some s) \<longrightarrow>
     documentString (JString s) = Inr (Some s)
     \<and> createDocumentHash p (JString s) = createDocumentHash p D"
  by (simp add: documentString_def createDocumentHash_def)

theorem documentString_idempotent_witness:
  "documentString (JObject [(''title'', JString ''Flight''), (''amount'', JNumber 120)])
     = Inr (Some ([CHR ''{'', CHR 0x22] @ ''amount'' @ [CHR 0x22] @ '':120,'' @ [CHR 0x22]
                  @ ''title'' @ [CHR 0x22, CHR '':'', CHR 0x22] @ ''Flight'' @ [CHR 0x22, CHR ''}'']))
   \<and> documentString (JString ([CHR ''{'', CHR 0x22] @ ''amount'' @ [CHR 0x22] @ '':120,'' @ [CHR 0x22]
                  @ ''title'' @ [CHR 0x22, CHR '':'', CHR 0x22] @ ''Flight'' @ [CHR 0x22, CHR ''}'']))
     = Inr (Some ([CHR ''{'', CHR 0x22] @ ''amount'' @ [CHR 0x22] @ '':120,'' @ [CHR 0x22]
                  @ ''title'' @ [CHR 0x22, CHR '':'', CHR 0x22] @ ''Flight'' @ [CHR 0x22, CHR ''}'']))"
proof -
  have "documentString (JObject [(''title'', JString ''Flight''), (''amount'', JNumber 120)])
     = Inr (Some ([CHR ''{'', CHR 0x22] @ ''amount'' @ [CHR 0x22] @ '':120,'' @ [CHR 0x22]
                  @ ''title'' @ [CHR 0x22, CHR '':'', CHR 0x22] @ ''Flight'' @ [CHR 0x22, CHR ''}'']))"
    by code_simp
  with documentString_idempotent
    [of "JObject [(''title'', JString ''Flight''), (''amount'', JNumber 120)]" _ sample_platform]
  show ?thesis by blast
qed

section \<open>Signing and verifying\<close>

lemma bind_err_simps:
  "bind_err (Inl e) f = Inl e" "bind_err (Inr x) f = f x"
  by (simp_all add: bind_err_def)

lemma JSON_stringify_defined:
  "D \<noteq> JUndefined \<Longrightarrow> \<exists>s. JSON_stringify D R = Some s"
  by (cases D) (simp_all add: JSON_stringify_def)

lemma documentString_defined:
  assumes "D \<noteq> JUndefined" "D \<noteq> JNull"
  shows "\<exists>s. documentString D = Inr (Some s)"
proof (cases D)
  case (JString s)
  then show ?thesis by (simp add: documentString_def)
next
  case (JObject kvs)
  with JSON_stringify_defined [of D "Some (sort (map fst kvs))"]
  show ?thesis by (auto simp: documentString_def)
next
  case (JArray xs)
  with JSON_stringify_defined [of D "Some (sort (map nat_to_string [0..<length xs]))"]
  show ?thesis by (auto simp: documentString_def)
next
  case (JBool b)
  then show ?thesis by (simp add: documentString_def JSON_stringify_def)
next
  case (JNumber n)
  then show ?thesis by (simp add: documentString_def JSON_stringify_def)
qed (use assms in simp_all)

lemma signDocument_sign_throws:
  assumes "documentString D = Inr (Some s)"
    and "node_sign p ''sha256WithRSA'' (node_createHash p ''sha256'' s) priv = Inl e"
  shows "signDocument p now D priv md
           = Inl (Error (''Erro ao assinar documento: '' @ message_of e))"
  using assms by (simp add: signDocument_def signDocument_try_def digest_hex_def)

text \<open>
  C1 at a failing input. \<open>signDocument\<close> asks \<^verbatim>\<open>crypto.createSign\<close> for the digest
  \<^verbatim>\<open>sha256WithRSA\<close>, a name OpenSSL does not know (it knows \<^verbatim>\<open>RSA-SHA256\<close> and
  \<^verbatim>\<open>sha256WithRSAEncryption\<close>). On a platform that rejects the name, \<open>signDocument\<close> throws
  for every document, key and metadata, so there is no envelope to verify: with a freshly
  generated key pair and the document \<^verbatim>\<open>{title: "Flight", amount: 120}\<close> the error is
  \<^verbatim>\<open>Erro ao assinar documento: Invalid digest\<close>.
\<close>

theorem signDocument_invalid_digest:
  "generateKeyPair sample_platform ''T0''
     = Inr \<lparr>key_pair.publicKey = ''PUB'', privateKey = ''PRIV'', key_pair.algorithm = ''RSA'',
            keyLength = 2048, createdAt = ''T0''\<rparr>
   \<and> signDocument sample_platform ''T1''
         (JObject [(''title'', JString ''Flight''), (''amount'', JNumber 120)]) ''PRIV'' []
       = Inl (Error ''Erro ao assinar documento: Invalid digest'')
   \<and> (\<exists>e. signDocument sample_platform now D priv md = Inl e)"
proof (intro conjI)
  show "generateKeyPair sample_platform ''T0''
     = Inr \<lparr>key_pair.publicKey = ''PUB'', privateKey = ''PRIV'', key_pair.algorithm = ''RSA'',
            keyLength = 2048, createdAt = ''T0''\<rparr>"
    by (simp add: generateKeyPair_def sample_platform_def)
  have reject: "node_sign sample_platform ''sha256WithRSA'' m k = Inl (Error ''Invalid digest'')"
    for m k
    by (simp add: sample_platform_def sample_digest_names_def)
  obtain s where s: "documentString (JObject [(''title'', JString ''Flight''), (''amount'', JNumber 120)])
                       = Inr (Some s)"
    using documentString_defined [of "JObject [(''title'', JString ''Flight''), (''amount'', JNumber 120)]"]
    by auto
  from signDocument_sign_throws [OF s reject]
  show "signDocument sample_platform ''T1''
         (JObject [(''title'', JString ''Flight''), (''amount'', JNumber 120)]) ''PRIV'' []
       = Inl (Error ''Erro ao assinar documento: Invalid digest'')"
    by simp
  show "\<exists>e. signDocument sample_platform now D priv md = Inl e"
  proof (cases "signDocument_try sample_platform now D priv md")
    case (Inl e)
    then show ?thesis by (simp add: signDocument_def)
  next
    case (Inr r)
    then have False
      by (auto simp: signDocument_try_def digest_hex_def reject
               split: sum.splits option.splits)
    then show ?thesis ..
  qed
qed

text \<open>
  The hash comparison comes first: when the recomputed hash differs from the one in the
  envelope, the result is \<^verbatim>\<open>DOCUMENT_MODIFIED\<close> whatever the signature check would say.
\<close>

lemma verifySignature_hash_mismatch:
  assumes "documentString D = Inr (Some s)"
    and "node_createHash p ''sha256'' s \<noteq> envelope.documentHash env"
  shows "verifySignature p D (Some env) =
           Inr \<lparr>valid = False, verify_result.reason = Some DOCUMENT_MODIFIED,
                message = ''Documento foi modificado ap'' @ [CHR 0xF3] @ ''s a assinatura'',
                verify_result.details =
                  [(''originalHash'', JString (envelope.documentHash env)),
                   (''currentHash'', JString (node_createHash p ''sha256'' s)),
                   (''documentIntact'', JBool False)]\<rparr>"
  using assms
  by (simp add: verifySignature_def verifySignature_try_def digest_hex_def)

text \<open>
  C2 at a failing input. The document \<^verbatim>\<open>{title: "Flight", cost: {amount: 120}}\<close> is
  signed and \<^verbatim>\<open>cost.amount\<close> is then changed to 130. The two documents have the same
  canonical string, since \<^verbatim>\<open>amount\<close> is not a top-level key, so
  \<open>verifySignature\<close> gives the same answer for both on every platform and every envelope;
  on the sample platform, against an envelope that holds the hash of the signed document
  and a genuine signature over it under the digest name \<^verbatim>\<open>RSA-SHA256\<close>, the mutated
  document verifies as valid, with no reason code.
\<close>

theorem nested_mutation_same_verdict:
  "JObject [(''title'', JString ''Flight''), (''cost'', JObject [(''amount'', JNumber 130)])]
     \<noteq> JObject [(''title'', JString ''Flight''), (''cost'', JObject [(''amount'', JNumber 120)])]
   \<and> verifySignature p
         (JObject [(''title'', JString ''Flight''), (''cost'', JObject [(''amount'', JNumber 130)])])
         env
     = verifySignature p
         (JObject [(''title'', JString ''Flight''), (''cost'', JObject [(''amount'', JNumber 120)])])
         env
   \<and> (\<exists>h v.
          createDocumentHash sample_platform
            (JObject [(''title'', JString ''Flight''), (''cost'', JObject [(''amount'', JNumber 120)])])
            = Inr h
        \<and> verifySignature sample_platform
            (JObject [(''title'', JString ''Flight''), (''cost'', JObject [(''amount'', JNumber 130)])])
            (Some \<lparr>envelope.digitalSignature = ''signed:'' @ h, envelope.documentHash = h,
                   envelope.algorithm = ''RSA-SHA256'', envelope.timestamp = ''T1'',
                   signerPublicKey = ''PUB'', metadata = []\<rparr>) = Inr v
        \<and> valid v \<and> verify_result.reason v = None)"
proof -
  let ?signed =
    "JObject [(''title'', JString ''Flight''), (''cost'', JObject [(''amount'', JNumber 120)])]"
  let ?mutated =
    "JObject [(''title'', JString ''Flight''), (''cost'', JObject [(''amount'', JNumber 130)])]"
  have same: "documentString ?mutated = documentString ?signed"
    by (simp add: documentString_def JSON_stringify_def List.map_filter_simps object_member_def)
  have "verifySignature p ?mutated env = verifySignature p ?signed env"
    by (simp only: verifySignature_def verifySignature_try_def same)
  moreover have "\<exists>h v. createDocumentHash sample_platform ?signed = Inr h
        \<and> verifySignature sample_platform ?mutated
            (Some \<lparr>envelope.digitalSignature = ''signed:'' @ h, envelope.documentHash = h,
                   envelope.algorithm = ''RSA-SHA256'', envelope.timestamp = ''T1'',
                   signerPublicKey = ''PUB'', metadata = []\<rparr>) = Inr v
        \<and> valid v \<and> verify_result.reason v = None"
    by (simp add: createDocumentHash_def verifySignature_def verifySignature_try_def
          digest_hex_def documentString_def JSON_stringify_def List.map_filter_simps
          object_member_def sample_platform_def sample_digest_names_def)
  ultimately show ?thesis by simp
qed

text \<open>
  C4. \<open>verifySignature\<close> always returns a result and never throws. Whatever is thrown
  inside its \<^verbatim>\<open>try\<close> block becomes the result
  \<^verbatim>\<open>{valid: false, reason: 'VERIFICATION_ERROR', message, details: {error}}\<close>; in particular
  when the document is intact and key parsing or the signature check throws (a malformed
  public key, an unknown algorithm).
\<close>

theorem verifySignature_never_throws:
  "(\<exists>v. verifySignature p D sd = Inr v)
   \<and> (\<forall>e. verifySignature_try p D sd = Inl e \<longrightarrow>
          verifySignature p D sd =
            Inr \<lparr>valid = False, verify_result.reason = Some VERIFICATION_ERROR,
                 message = ''Erro na verifica'' @ [CHR 0xE7, CHR 0xE3] @ ''o: '' @ message_of e,
                 verify_result.details = [(''error'', JString (message_of e))]\<rparr>)
   \<and> (\<forall>env s e. sd = Some env \<and> documentString D = Inr (Some s)
          \<and> node_createHash p ''sha256'' s = envelope.documentHash env
          \<and> node_verify p (envelope.algorithm env) (envelope.documentHash env)
                (signerPublicKey env) (envelope.digitalSignature env) = Inl e \<longrightarrow>
          verifySignature p D sd =
            Inr \<lparr>valid = False, verify_result.reason = Some VERIFICATION_ERROR,
                 message = ''Erro na verifica'' @ [CHR 0xE7, CHR 0xE3] @ ''o: '' @ message_of e,
                 verify_result.details = [(''error'', JString (message_of e))]\<rparr>)"
proof (intro conjI allI impI)
  show "\<exists>v. verifySignature p D sd = Inr v"
    by (cases "verifySignature_try p D sd") (simp_all add: verifySignature_def)
next
  fix e
  assume "verifySignature_try p D sd = Inl e"
  then show "verifySignature p D sd =
            Inr \<lparr>valid = False, verify_result.reason = Some VERIFICATION_ERROR,
                 message = ''Erro na verifica'' @ [CHR 0xE7, CHR 0xE3] @ ''o: '' @ message_of e,
                 verify_result.details = [(''error'', JString (message_of e))]\<rparr>"
    by (simp add: verifySignature_def)
next
  fix env s e
  assume "sd = Some env \<and> documentString D = Inr (Some s)
          \<and> node_createHash p ''sha256'' s = envelope.documentHash env
          \<and> node_verify p (envelope.algorithm env) (envelope.documentHash env)
                (signerPublicKey env) (envelope.digitalSignature env) = Inl e"
  then have "verifySignature_try p D sd = Inl e"
    by (simp add: verifySignature_try_def digest_hex_def)
  then show "verifySignature p D sd =
            Inr \<lparr>valid = False, verify_result.reason = Some VERIFICATION_ERROR,
                 message = ''Erro na verifica'' @ [CHR 0xE7, CHR 0xE3] @ ''o: '' @ message_of e,
                 verify_result.details = [(''error'', JString (message_of e))]\<rparr>"
    by (simp add: verifySignature_def)
qed

theorem verifySignature_never_throws_witness:
  "verifySignature sample_platform (JString ''Flight'')
     (Some \<lparr>envelope.digitalSignature = ''signed:Flight'', envelope.documentHash = ''Flight'',
            envelope.algorithm = ''RSA-SHA256'', envelope.timestamp = ''T1'',
            signerPublicKey = ''not a PEM key'', metadata = []\<rparr>)
   = Inr \<lparr>valid = False, verify_result.reason = Some VERIFICATION_ERROR,
          message = ''Erro na verifica'' @ [CHR 0xE7, CHR 0xE3] @ ''o: unsupported key'',
          verify_result.details = [(''error'', JString ''unsupported key'')]\<rparr>"
proof -
  let ?env = "\<lparr>envelope.digitalSignature = ''signed:Flight'', envelope.documentHash = ''Flight'',
            envelope.algorithm = ''RSA-SHA256'', envelope.timestamp = ''T1'',
            signerPublicKey = ''not a PEM key'', metadata = []\<rparr>"
  have "Some ?env = Some ?env \<and> documentString (JString ''Flight'') = Inr (Some ''Flight'')
          \<and> node_createHash sample_platform ''sha256'' ''Flight'' = envelope.documentHash ?env
          \<and> node_verify sample_platform (envelope.algorithm ?env) (envelope.documentHash ?env)
                (signerPublicKey ?env) (envelope.digitalSignature ?env) = Inl (Error ''unsupported key'')"
    by (simp add: documentString_def sample_platform_def sample_digest_names_def)
  then have "verifySignature sample_platform (JString ''Flight'') (Some ?env) =
            Inr \<lparr>valid = False, verify_result.reason = Some VERIFICATION_ERROR,
                 message = ''Erro na verifica'' @ [CHR 0xE7, CHR 0xE3] @ ''o: ''
                           @ message_of (Error ''unsupported key''),
                 verify_result.details = [(''error'', JString (message_of (Error ''unsupported key'')))]\<rparr>"
    by (rule verifySignature_never_throws [of sample_platform "JString ''Flight''" "Some ?env",
          THEN conjunct2, THEN conjunct2, rule_format])
  then show ?thesis by simp
qed

lemma hex_value_digit_char: "k < 16 \<Longrightarrow> hex_value (digit_char k) = Some k"
proof -
  assume k: "k < 16"
  have "map_of (zip ''0123456789abcdef'' [0..<16]) (''0123456789abcdef'' ! k) = Some ([0..<16] ! k)"
    by (rule map_of_zip_nth) (use k in simp_all)
  with k show ?thesis by (simp add: hex_value_def digit_char_def)
qed

lemma unescape_unicode_control:
  assumes "(of_char c :: nat) < 32"
  shows "unescape_unicode (CHR ''0'') (CHR ''0'') (digit_char (of_char c div 16))
           (digit_char (of_char c mod 16)) = Some c"
proof -
  have zero: "hex_value (CHR ''0'') = Some 0"
    using hex_value_digit_char [of 0] by (simp add: digit_char_def)
  have hi: "hex_value (digit_char (of_char c div 16)) = Some (of_char c div 16)"
    using assms by (intro hex_value_digit_char) simp
  have lo: "hex_value (digit_char (of_char c mod 16)) = Some (of_char c mod 16)"
    by (intro hex_value_digit_char) simp
  show ?thesis
    by (simp add: unescape_unicode_def zero hi lo)
qed

lemma unquote_quote_unit:
  "unquote (quote_unit c @ t) = prepend (Some c) (unquote t)"
proof -
  consider (named) "c \<in> {CHR 0x08, CHR 0x09, CHR 0x0A, CHR 0x0C, CHR 0x0D, CHR 0x22, CHR 0x5C}"
    | (control) "c \<notin> {CHR 0x08, CHR 0x09, CHR 0x0A, CHR 0x0C, CHR 0x0D, CHR 0x22, CHR 0x5C}"
        "(of_char c :: nat) < 32"
    | (plain) "c \<notin> {CHR 0x08, CHR 0x09, CHR 0x0A, CHR 0x0C, CHR 0x0D, CHR 0x22, CHR 0x5C}"
        "\<not> (of_char c :: nat) < 32"
    by blast
  then show ?thesis
  proof cases
    case named
    then show ?thesis
      by (auto simp: quote_unit_def unescape_def)
  next
    case control
    then show ?thesis
      by (simp add: quote_unit_def unescape_unicode_control)
  next
    case plain
    then show ?thesis
      by (simp add: quote_unit_def)
  qed
qed

lemma unquote_quote:
  "unquote (concat (map quote_unit s) @ CHR 0x22 # rest) = Some (s, rest)"
  by (induction s) (simp_all add: unquote_quote_unit prepend_def del: unquote.simps(2),
                    simp)

lemma expect_append: "expect pre (pre @ rest) = Some rest"
  by (simp add: expect_def)

lemma map_filter_all_Some:
  "(\<And>x. x \<in> set xs \<Longrightarrow> f (g x) = Some (h x)) \<Longrightarrow> List.map_filter f (map g xs) = map h xs"
  by (induction xs) (simp_all add: List.map_filter_simps)

lemma string_object_members:
  assumes "string_object kvs"
  shows "List.map_filter (object_member (map (map_prod id (SerializeJSONProperty None)) kvs))
           (map fst kvs) = map member_text kvs"
proof (rule map_filter_all_Some)
  fix x
  assume x: "x \<in> set kvs"
  obtain k v where kv: "x = (k, v)" by (cases x)
  from assms x kv have "is_string v"
    by (auto simp: string_object_def list_all_iff)
  then obtain t where v: "v = JString t"
    by (cases v) simp_all
  from assms x kv have "map_of kvs k = Some v"
    by (simp add: string_object_def)
  with kv v show "object_member (map (map_prod id (SerializeJSONProperty None)) kvs) (fst x)
                  = Some (member_text x)"
    by (simp add: object_member_map member_text_def)
qed

lemma stringify_string_object:
  "string_object kvs \<Longrightarrow>
   JSON_stringify (JObject kvs) None = Some (''{'' @ join '','' (map member_text kvs) @ ''}'')"
  by (simp add: JSON_stringify_def string_object_members)

lemma member_text_string:
  "member_text (k, JString t) =
     CHR 0x22 # concat (map quote_unit k) @ CHR 0x22 # CHR '':'' # CHR 0x22 #
       concat (map quote_unit t) @ [CHR 0x22]"
  by (simp add: member_text_def QuoteJSONString_def)

lemma parse_members_last:
  "parse_members (member_text (k, JString t) @ ''}'') = Some [(k, JString t)]"
proof -
  have "member_text (k, JString t) @ ''}'' =
          CHR 0x22 # (concat (map quote_unit k) @ CHR 0x22 #
            (('':'' @ [CHR 0x22]) @ (concat (map quote_unit t) @ CHR 0x22 # ''}'')))"
    by (simp add: member_text_string)
  then show ?thesis
    by (simp only: parse_members.simps [of "CHR 0x22 # _"] list.case unquote_quote
          option.case prod.case expect_append HOL.simp_thms if_False if_True)
qed

lemma parse_members_more:
  "parse_members (member_text (k, JString t) @ '','' @ rest)
     = map_option ((#) (k, JString t)) (parse_members rest)"
proof -
  have "member_text (k, JString t) @ '','' @ rest =
          CHR 0x22 # (concat (map quote_unit k) @ CHR 0x22 #
            (('':'' @ [CHR 0x22]) @ (concat (map quote_unit t) @ CHR 0x22 # ('','' @ rest))))"
    by (simp add: member_text_string)
  moreover have "'','' @ rest \<noteq> ''}''"
    by simp
  ultimately show ?thesis
    by (simp only: parse_members.simps [of "CHR 0x22 # _"] list.case unquote_quote
          option.case prod.case expect_append HOL.simp_thms if_False if_True)
qed

lemma parse_members_roundtrip:
  assumes "kvs \<noteq> []" "list_all (\<lambda>(k, v). plain_key k \<and> is_string v) kvs"
  shows "parse_members (join '','' (map member_text kvs) @ ''}'') = Some kvs"
  using assms
proof (induction kvs rule: induct_list012)
  case 1
  then show ?case by simp
next
  case (2 m)
  then obtain k t where "m = (k, JString t)"
    by (cases m; cases "snd m") auto
  then show ?case by (simp add: parse_members_last)
next
  case (3 m n kvs)
  then obtain k t where m: "m = (k, JString t)"
    by (cases m; cases "snd m") auto
  from 3 have "parse_members (join '','' (map member_text (n # kvs)) @ ''}'') = Some (n # kvs)"
    by simp
  with m parse_members_more [of k t "join '','' (map member_text (n # kvs)) @ ''}''"]
  show ?case by simp
qed

lemma member_text_starts:
  "is_string v \<Longrightarrow> \<exists>r. member_text (k, v) = CHR 0x22 # r"
  by (cases v) (simp_all add: member_text_string)

lemma sample_JSON_parse_roundtrip:
  assumes obj: "string_object kvs"
    and s: "JSON_stringify (JObject kvs) None = Some s"
  shows "sample_JSON_parse s = Inr (JObject kvs)"
proof (cases kvs)
  case Nil
  with s have "s = ''{}''"
    by (simp add: JSON_stringify_def List.map_filter_simps)
  with Nil show ?thesis
    by (simp add: sample_JSON_parse_def)
next
  case (Cons m ms)
  from obj have strings: "list_all (\<lambda>(k, v). plain_key k \<and> is_string v) kvs"
    by (simp add: string_object_def)
  from s obj have shape: "s = CHR ''{'' # (join '','' (map member_text kvs) @ ''}'')"
    by (simp add: stringify_string_object)
  from strings Cons obtain r where "member_text m = CHR 0x22 # r"
    using member_text_starts [of "snd m" "fst m"] by (cases m) auto
  with Cons have "join '','' (map member_text kvs) @ ''}'' \<noteq> ''}''"
    by (cases ms) simp_all
  moreover from Cons strings
  have "parse_members (join '','' (map member_text kvs) @ ''}'') = Some kvs"
    by (intro parse_members_roundtrip) simp_all
  ultimately show ?thesis
    by (simp add: sample_JSON_parse_def shape)
qed

text \<open>
  C8. Let the platform obey the round-trip laws of its two codecs: decoding base64 gives
  back what was encoded, and \<^verbatim>\<open>JSON.parse\<close> gives back an object whose properties are
  strings from the text that \<^verbatim>\<open>JSON.stringify\<close> writes for it. Then \<open>generateTimestamp\<close>
  issues a token for every data string, \<open>verifyTimestamp\<close> of that token with the same data
  is true, and the token in which the embedded hash is replaced by any other value is
  rejected, since verification recomputes the digest of the data followed by the embedded
  timestamp and compares it with the embedded hash.
\<close>

theorem timestamp_token_roundtrip:
  assumes base64: "\<And>s. node_base64_decode p (node_base64_encode p s) = s"
    and parse: "\<And>kvs s. string_object kvs \<Longrightarrow> JSON_stringify (JObject kvs) None = Some s
                  \<Longrightarrow> node_JSON_parse p s = Inr (JObject kvs)"
  shows "\<exists>g. generateTimestamp p now data = Inr g
           \<and> verifyTimestamp p (token g) data
           \<and> (\<forall>h'. h' \<noteq> node_createHash p ''sha256'' (data @ now) \<longrightarrow>
                 (\<exists>s'. JSON_stringify (timestamp_object now h') None = Some s'
                     \<and> \<not> verifyTimestamp p (node_base64_encode p s') data))"
proof -
  let ?h = "node_createHash p ''sha256'' (data @ now)"
  have strings: "string_object [(''timestamp'', JString now), (''hash'', JString h'),
                                (''tsa'', JString ''internal-tsa'')]" for h'
    by (simp add: string_object_def plain_key_def)
  have written: "\<exists>s. JSON_stringify (timestamp_object now h') None = Some s" for h'
    by (simp add: timestamp_object_def stringify_string_object [OF strings])
  have decoded: "node_JSON_parse p (node_base64_decode p (node_base64_encode p s))
                   = Inr (timestamp_object now h')"
    if "JSON_stringify (timestamp_object now h') None = Some s" for s h'
    using that parse [OF strings [of h'], of s] by (simp add: base64 timestamp_object_def)
  have check: "verifyTimestamp p (node_base64_encode p s) data = (?h = h')"
    if "JSON_stringify (timestamp_object now h') None = Some s" for s h'
    using decoded [OF that]
    by (simp add: verifyTimestamp_def verifyTimestamp_try_def timestamp_object_def)
  from written [of ?h] obtain js
    where js: "JSON_stringify (timestamp_object now ?h) None = Some js" ..
  let ?g = "\<lparr>timestamp_result.timestamp = now, token = node_base64_encode p js\<rparr>"
  have gen: "generateTimestamp p now data = Inr ?g"
    using js by (simp add: generateTimestamp_def Let_def)
  have good: "verifyTimestamp p (token ?g) data"
    using check [OF js] by simp
  have bad: "\<exists>s'. JSON_stringify (timestamp_object now h') None = Some s'
                \<and> \<not> verifyTimestamp p (node_base64_encode p s') data"
    if "h' \<noteq> ?h" for h'
  proof -
    from written [of h'] obtain s'
      where s': "JSON_stringify (timestamp_object now h') None = Some s'" ..
    with check [OF s'] that show ?thesis by auto
  qed
  from gen good bad show ?thesis by blast
qed

theorem timestamp_token_roundtrip_witness:
  "\<exists>g. generateTimestamp sample_platform ''T1'' ''data'' = Inr g
       \<and> verifyTimestamp sample_platform (token g) ''data''
       \<and> (\<exists>s'. JSON_stringify (timestamp_object ''T1'' ''forged'') None = Some s'
              \<and> \<not> verifyTimestamp sample_platform (node_base64_encode sample_platform s') ''data'')"
proof -
  have base64: "node_base64_decode sample_platform (node_base64_encode sample_platform s) = s"
    for s
    by (simp add: sample_platform_def)
  have parse: "node_JSON_parse sample_platform s = Inr (JObject kvs)"
    if "string_object kvs" "JSON_stringify (JObject kvs) None = Some s" for kvs s
    using sample_JSON_parse_roundtrip [OF that] by (simp add: sample_platform_def)
  have differ: "''forged'' \<noteq> node_createHash sample_platform ''sha256'' (''data'' @ ''T1'')"
    by (simp add: sample_platform_def)
  from timestamp_token_roundtrip [of sample_platform "''T1''" "''data''", OF base64 parse] differ
  show ?thesis by blast
qed

section \<open>The verify protocol of the Signature model\<close>

lemma sample_hash_computed:
  "calculateDocumentHash sample_platform sample_expense = Inr sample_hash"
proof -
  have "\<exists>h. calculateDocumentHash sample_platform sample_expense = Inr h"
    by (simp add: calculateDocumentHash_def sample_expense_def bind_err_simps receipts_map_def
          receipt_view_def digest_hex_def JSON_stringify_def)
  then show ?thesis by (auto simp: sample_hash_def)
qed

lemma calculateDocumentHash_platform:
  assumes "node_createHash q = node_createHash p"
  shows "calculateDocumentHash q doc = calculateDocumentHash p doc"
proof -
  have "digest_hex q = digest_hex p"
    by (intro ext) (simp add: digest_hex_def assms split: option.splits)
  then show ?thesis
    by (simp only: calculateDocumentHash_def)
qed

text \<open>
  The sample record on the sample platform: \<^verbatim>\<open>'SHA256withRSA'.replace('with', '')\<close> is
  \<^verbatim>\<open>SHA256RSA\<close>, which the platform does not know, so the checks throw. On a platform
  that takes the name as known, the checks complete, and the record, which has no
  certificate, gets certificateValid = false.
\<close>

lemma sample_checks_throw:
  "signature_record.algorithm r = SHA256withRSA \<Longrightarrow> publicKey r = ''PUB''
   \<Longrightarrow> verify_checks sample_platform findById now r = Inl (Error ''Invalid digest'')"
  by (simp add: verify_checks_def bind_err_simps sample_platform_def sample_digest_names_def)

lemma sample_checks_known_digest:
  "verify_checks any_digest_platform sample_findById now
     (sample_record\<lparr>timestampToken := tok\<rparr>)
   = Inr (True, True, False, True)"
proof -
  have "node_createHash any_digest_platform = node_createHash sample_platform"
    by (simp add: any_digest_platform_def)
  then have hash: "calculateDocumentHash any_digest_platform sample_expense = Inr sample_hash"
    by (simp only: calculateDocumentHash_platform sample_hash_computed)
  have key: "node_createPublicKey any_digest_platform ''PUB'' = Inr ''PUB''"
    by (simp add: any_digest_platform_def sample_platform_def)
  have sig: "node_verify any_digest_platform alg sample_hash ''PUB'' (''signed:'' @ sample_hash)
               = Inr True" for alg
    by (simp add: any_digest_platform_def)
  show ?thesis
    by (simp add: verify_checks_def sample_record_def sample_findById_def hash key
          sig [simplified] bind_err_simps verifyTimestamp_record_def split: option.splits)
qed

lemma verify_checks_InrD:
  assumes "verify_checks p findById now r = Inr (sv, di, cv, tv)"
  shows "\<exists>pub doc h.
           node_createPublicKey p (publicKey r) = Inr pub
         \<and> node_verify p (replace_first ''with'' [] (algorithm_name (signature_record.algorithm r)))
              (signature_record.documentHash r) pub (signature_record.digitalSignature r) = Inr sv
         \<and> findById (document r) = Inr doc
         \<and> calculateDocumentHash p doc = Inr h
         \<and> di = (h = signature_record.documentHash r)
         \<and> cv = (case validTo (certificate r) of None \<Rightarrow> False | Some t \<Rightarrow> now < t)
         \<and> tv = (case timestampToken r of
                   None \<Rightarrow> True
                 | Some tok \<Rightarrow> if tok = [] then True else verifyTimestamp_record r)"
proof (cases "node_createPublicKey p (publicKey r)")
  case (Inl e)
  with assms show ?thesis by (simp add: verify_checks_def bind_err_simps)
next
  case pub: (Inr pub)
  show ?thesis
  proof (cases "node_verify p (replace_first ''with'' [] (algorithm_name (signature_record.algorithm r)))
              (signature_record.documentHash r) pub (signature_record.digitalSignature r)")
    case (Inl e)
    with assms pub show ?thesis by (simp add: verify_checks_def bind_err_simps)
  next
    case sv: (Inr sv')
    show ?thesis
    proof (cases "findById (document r)")
      case (Inl e)
      with assms pub sv show ?thesis by (simp add: verify_checks_def bind_err_simps)
    next
      case doc: (Inr doc)
      show ?thesis
      proof (cases "calculateDocumentHash p doc")
        case (Inl e)
        with assms pub sv doc show ?thesis by (simp add: verify_checks_def bind_err_simps)
      next
        case h: (Inr h)
        from assms pub sv doc h show ?thesis
          by (simp add: verify_checks_def bind_err_simps Let_def)
      qed
    qed
  qed
qed

text \<open>
  C9, as stated, fails at the empty token: the record's \<open>verifyTimestamp\<close> treats an empty
  string like an absent token and returns true, although the length is not greater than
  zero.
\<close>

theorem verifyTimestamp_record_empty_token:
  "\<not> (verifyTimestamp_record (sample_record\<lparr>timestampToken := Some []\<rparr>)
        \<longleftrightarrow> 0 < length ([] :: string))"
  by (simp add: verifyTimestamp_record_def)

text \<open>
  C9, amended. The record's \<open>verifyTimestamp\<close> returns true for every token, present or
  not, empty or not: an absent or empty token counts as valid, and a non-empty one passes
  the length test. Nothing is recomputed or compared, so whenever the checks of \<open>verify\<close>
  complete, the timestamp check has passed.
\<close>

theorem verifyTimestamp_record_accepts_all:
  "verifyTimestamp_record r
   \<and> (\<forall>sv di cv tv. verify_checks p findById now r = Inr (sv, di, cv, tv) \<longrightarrow> tv)"
proof
  show ts: "verifyTimestamp_record r"
    by (simp add: verifyTimestamp_record_def split: option.splits)
  show "\<forall>sv di cv tv. verify_checks p findById now r = Inr (sv, di, cv, tv) \<longrightarrow> tv"
  proof (intro allI impI)
    fix sv di cv tv
    assume "verify_checks p findById now r = Inr (sv, di, cv, tv)"
    then have "tv = (case timestampToken r of None \<Rightarrow> True
                     | Some tok \<Rightarrow> if tok = [] then True else verifyTimestamp_record r)"
      by (blast dest: verify_checks_InrD)
    with ts show tv by (simp split: option.splits)
  qed
qed

theorem verifyTimestamp_record_accepts_all_witness:
  "verifyTimestamp_record (sample_record\<lparr>timestampToken := Some ''anything''\<rparr>)
   \<and> verify_checks any_digest_platform sample_findById 3000
        (sample_record\<lparr>timestampToken := Some ''anything''\<rparr>)
      = Inr (True, True, False, True)"
  using verifyTimestamp_record_accepts_all
    [of "sample_record\<lparr>timestampToken := Some ''anything''\<rparr>"
        any_digest_platform sample_findById 3000]
    sample_checks_known_digest [of 3000 "Some ''anything''"]
  by simp

lemma status_save [simp]: "status (save now r) = status r"
  by (simp add: save_def pre_save_def)

lemma verifications_save [simp]: "verifications (save now r) = verifications r"
  by (simp add: save_def pre_save_def)

lemma verify_exception:
  assumes "verify_checks p findById now r = Inl e"
  shows "fst (verify p findById now r who how) = False"
    and "status (snd (verify p findById now r who how)) = Invalid"
    and "verifications (snd (verify p findById now r who how)) =
           verifications r @
             [\<lparr>verifiedAt = now, verifiedBy = who, result = ''invalid'',
               verification.details =
                 \<lparr>signatureValid = False, certificateValid = False, timestampValid = False,
                  documentIntact = False, errors = [message_of e]\<rparr>,
               method_v = how\<rparr>]"
  using assms by (simp_all add: verify_def Let_def set_status_def)

lemma verify_no_exception:
  assumes "verify_checks p findById now r = Inr (sv, di, cv, tv)"
  shows "fst (verify p findById now r who how) = (sv \<and> di \<and> cv \<and> tv)"
    and "verifications (snd (verify p findById now r who how)) =
           verifications r @
             [\<lparr>verifiedAt = now, verifiedBy = who,
               result = (if sv \<and> di \<and> cv \<and> tv then ''valid'' else ''invalid''),
               verification.details =
                 \<lparr>signatureValid = sv, certificateValid = cv, timestampValid = tv,
                  documentIntact = di, errors = []\<rparr>,
               method_v = how\<rparr>]"
    and "status (snd (verify p findById now r who how)) =
           (if status r = Pending_verification
            then (if sv \<and> di \<and> cv \<and> tv then Valid else Invalid) else status r)"
  using assms by (simp_all add: verify_def Let_def set_status_def)

text \<open>
  C3 at a failing input. The sample record is revoked and \<open>verify\<close> is called on it
  afterwards. The checks throw (the platform does not know the digest name; an expense
  that is no longer found would make them throw as well), and the \<^verbatim>\<open>catch\<close> branch sets
  the status without looking at it: the revoked record becomes \<open>Invalid\<close>.
\<close>

theorem verify_resurrects_revoked:
  "status (revoke 2000 sample_record (ObjectId 3) Key_compromise ''lost laptop'') = Revoked
   \<and> status (snd (verify sample_platform (\<lambda>ident. Inr JNull) 3000
                (revoke 2000 sample_record (ObjectId 3) Key_compromise ''lost laptop'')
                (ObjectId 4) Manual)) = Invalid"
proof -
  let ?r = "revoke 2000 sample_record (ObjectId 3) Key_compromise ''lost laptop''"
  have "signature_record.algorithm ?r = SHA256withRSA" "publicKey ?r = ''PUB''"
    by (simp_all add: revoke_def save_def pre_save_def set_status_def sample_record_def)
  then have "verify_checks sample_platform (\<lambda>ident. Inr JNull) 3000 ?r
               = Inl (Error ''Invalid digest'')"
    by (rule sample_checks_throw)
  then have "status (snd (verify sample_platform (\<lambda>ident. Inr JNull) 3000 ?r
                (ObjectId 4) Manual)) = Invalid"
    by (rule verify_exception)
  moreover have "status ?r = Revoked"
    by (simp add: revoke_def set_status_def)
  ultimately show ?thesis by simp
qed

text \<open>
  C5 at a failing input. The sample record is pending, was saved before, and holds a genuine
  signature over the hash of its unchanged expense: under the digest name \<^verbatim>\<open>RSA-SHA256\<close>
  the platform verifies it. \<open>verify\<close> passes \<^verbatim>\<open>SHA256RSA\<close> to \<^verbatim>\<open>crypto.createVerify\<close>,
  which throws, so none of the four booleans is computed: \<open>verify\<close> returns false, records
  all four as false with the error message, and marks the record \<open>Invalid\<close>. And on the
  platform that takes every digest name as known the checks complete, and the record, which has no certificate, gets
  certificateValid = false, since \<^verbatim>\<open>this.certificate\<close> is always an object and its unset
  \<^verbatim>\<open>validTo\<close> is compared with the date.
\<close>

theorem verify_genuine_signature_invalid:
  "node_verify sample_platform ''RSA-SHA256'' (signature_record.documentHash sample_record)
       ''PUB'' (signature_record.digitalSignature sample_record) = Inr True
   \<and> calculateDocumentHash sample_platform sample_expense
       = Inr (signature_record.documentHash sample_record)
   \<and> status sample_record = Pending_verification
   \<and> fst (verify sample_platform sample_findById 3000 sample_record (ObjectId 4) Manual)
       = False
   \<and> status (snd (verify sample_platform sample_findById 3000 sample_record
                (ObjectId 4) Manual)) = Invalid
   \<and> verifications (snd (verify sample_platform sample_findById 3000 sample_record
                (ObjectId 4) Manual))
       = [\<lparr>verifiedAt = 3000, verifiedBy = ObjectId 4, result = ''invalid'',
           verification.details =
             \<lparr>signatureValid = False, certificateValid = False, timestampValid = False,
              documentIntact = False, errors = [''Invalid digest'']\<rparr>,
           method_v = Manual\<rparr>]
   \<and> verify_checks any_digest_platform sample_findById 3000 sample_record
       = Inr (True, True, False, True)"
proof (intro conjI)
  show "node_verify sample_platform ''RSA-SHA256'' (signature_record.documentHash sample_record)
       ''PUB'' (signature_record.digitalSignature sample_record) = Inr True"
    by (simp add: sample_record_def sample_platform_def sample_digest_names_def)
  show "calculateDocumentHash sample_platform sample_expense
       = Inr (signature_record.documentHash sample_record)"
    by (simp add: sample_hash_computed sample_record_def)
  show "status sample_record = Pending_verification"
    by (simp add: sample_record_def)
  have "signature_record.algorithm sample_record = SHA256withRSA" "publicKey sample_record = ''PUB''"
    by (simp_all add: sample_record_def)
  then have throw: "verify_checks sample_platform sample_findById 3000 sample_record
                      = Inl (Error ''Invalid digest'')"
    by (rule sample_checks_throw)
  from verify_exception(1) [OF throw]
  show "fst (verify sample_platform sample_findById 3000 sample_record (ObjectId 4) Manual)
       = False" .
  from verify_exception(2) [OF throw]
  show "status (snd (verify sample_platform sample_findById 3000 sample_record
                (ObjectId 4) Manual)) = Invalid" .
  from verify_exception(3) [OF throw, of "ObjectId 4" Manual]
  show "verifications (snd (verify sample_platform sample_findById 3000 sample_record
                (ObjectId 4) Manual))
       = [\<lparr>verifiedAt = 3000, verifiedBy = ObjectId 4, result = ''invalid'',
           verification.details =
             \<lparr>signatureValid = False, certificateValid = False, timestampValid = False,
              documentIntact = False, errors = [''Invalid digest'']\<rparr>,
           method_v = Manual\<rparr>]"
    by (simp add: sample_record_def)
  from sample_checks_known_digest [of 3000 None]
  show "verify_checks any_digest_platform sample_findById 3000 sample_record
       = Inr (True, True, False, True)"
    by (simp add: sample_record_def)
qed

end
